theory Spec2Isabelle
  imports Complex_Main "HOL-Library.Sublist"
begin

chapter \<open>API-WatchTower: the observation pipeline\<close>

text \<open>
  A shallow embedding of the Go sources. Conventions used throughout:
  \<^item> \<open>time.Time\<close> and \<open>time.Duration\<close> are integers counting nanoseconds; the zero
    \<open>time.Time\<close> (\<open>IsZero\<close>) is \<open>0\<close>.
  \<^item> Every \<open>time.Now()\<close> / \<open>time.Since\<close> in a function is a separate reading of the
    clock, so each function takes the readings it makes as explicit arguments, one
    argument per call site.
  \<^item> \<open>float64\<close> is modelled by \<open>real\<close>: rounding, infinities and NaN are not modelled.
    Where Go would divide by zero the theorems assume a non-zero divisor.
  \<^item> Library decoders (\<open>json.Unmarshal\<close>) and I/O (storage, SMTP, HTTP) are
    parameters of the functions that call them.
  \<^item> A mutex-protected method is modelled as one atomic state transition.
\<close>

section \<open>Log ingester (internal/log/ingestion.go)\<close>

record ApplicationLog =
  ApplicationID :: string
  ServiceName :: string
  log_Severity :: string
  log_Message :: string
  log_Timestamp :: int
  InstanceID :: string
  TraceID :: string
  UserID :: string
  log_Source :: string
  Payload :: string

record Ingester =
  buffer :: "ApplicationLog list"
  bufferSize :: int
  batchSize :: int

text \<open>\<open>validateLog\<close>: \<open>None\<close> is Go's \<open>nil\<close> error, \<open>Some msg\<close> is \<open>errors.New(msg)\<close>.\<close>

definition validateLog :: "ApplicationLog \<Rightarrow> string option" where
  "validateLog l =
     (if ApplicationID l = [] then Some ''application_id is required''
      else if ServiceName l = [] then Some ''service_name is required''
      else if log_Severity l = [] then Some ''severity is required''
      else if log_Message l = [] then Some ''message is required''
      else None)"

datatype ingest_error = UnmarshalError | ValidationError string

text \<open>
  \<open>IngestLog\<close>. \<open>unmarshal\<close> stands for \<open>json.Unmarshal\<close> into \<open>db.ApplicationLog\<close>
  (\<open>None\<close> when it returns an error); \<open>now\<close> is the reading of \<open>time.Now()\<close>.
  The result is the returned error, the ingester afterwards, and whether
  \<open>triggerFlush\<close> was called.
\<close>

definition IngestLog ::
  "(string \<Rightarrow> ApplicationLog option) \<Rightarrow> int \<Rightarrow> Ingester \<Rightarrow> string
     \<Rightarrow> ingest_error option \<times> Ingester \<times> bool" where
  "IngestLog unmarshal now i rawLog =
     (case unmarshal rawLog of
        None \<Rightarrow> (Some UnmarshalError, i, False)
      | Some l \<Rightarrow>
          (case validateLog l of
             Some msg \<Rightarrow> (Some (ValidationError msg), i, False)
           | None \<Rightarrow>
               (let l' = (if log_Timestamp l = 0 then l\<lparr>log_Timestamp := now\<rparr> else l);
                    buf = buffer i @ [l'];
                    shouldFlush = (bufferSize i \<le> int (length buf))
                in (None, i\<lparr>buffer := buf\<rparr>, shouldFlush))))"

datatype flush_panic = MakeSliceLenOutOfRange

text \<open>
  \<open>flush\<close>. \<open>batchInsert\<close> stands for \<open>storage.BatchInsertLogs\<close>: it maps the batch and the
  store to the returned error (\<open>None\<close> for \<open>nil\<close>) and the store afterwards.
  \<open>make([]*db.ApplicationLog, batchSize)\<close> panics for a negative length.
\<close>

definition flush ::
  "(ApplicationLog list \<Rightarrow> 'st \<Rightarrow> string option \<times> 'st) \<Rightarrow> Ingester \<Rightarrow> 'st
     \<Rightarrow> flush_panic + (Ingester \<times> 'st)" where
  "flush batchInsert i st =
     (if length (buffer i) = 0 then Inr (i, st)
      else
        (let n = (if batchSize i > int (length (buffer i)) then int (length (buffer i))
                  else batchSize i)
         in if n < 0 then Inl MakeSliceLenOutOfRange
            else
              (let batch = take (nat n) (buffer i);
                   i1 = i\<lparr>buffer := drop (nat n) (buffer i)\<rparr>;
                   (err, st') = batchInsert batch st
               in (case err of
                     None \<Rightarrow> Inr (i1, st')
                   | Some e \<Rightarrow> Inr (i1\<lparr>buffer := batch @ buffer i1\<rparr>, st')))))"

text \<open>Sample data for the scenarios.\<close>

definition mk_log :: "string \<Rightarrow> int \<Rightarrow> ApplicationLog" where
  "mk_log msg ts =
     \<lparr>ApplicationID = ''app'', ServiceName = ''svc'', log_Severity = ''ERROR'',
      log_Message = msg, log_Timestamp = ts, InstanceID = [], TraceID = [], UserID = [],
      log_Source = [], Payload = []\<rparr>"

definition seven_logs :: "ApplicationLog list" where
  "seven_logs = map (\<lambda>k. mk_log ''m'' k) [1, 2, 3, 4, 5, 6, 7]"

definition failing_store :: "ApplicationLog list \<Rightarrow> ApplicationLog list \<Rightarrow> string option \<times> ApplicationLog list" where
  "failing_store batch st = (Some ''connection refused'', st)"

definition appending_store :: "ApplicationLog list \<Rightarrow> ApplicationLog list \<Rightarrow> string option \<times> ApplicationLog list" where
  "appending_store batch st = (None, st @ batch)"

definition sample_unmarshal :: "string \<Rightarrow> ApplicationLog option" where
  "sample_unmarshal raw =
     (if raw = ''{good}'' then Some (mk_log ''disk full'' 0)
      else if raw = ''{no message}'' then Some (mk_log [] 0)
      else None)"

section \<open>Notification manager and rate limiter (package alert, notification file)\<close>

text \<open>The \<open>Alert\<close> struct handed to the notification channels.\<close>

record Alert =
  Severity :: string
  Title :: string
  Timestamp :: string
  Source :: string
  Message :: string
  Details :: string
  AlertURL :: string

text \<open>
  \<open>RateLimiter\<close>: \<open>tokens\<close>, \<open>rate\<close> and \<open>burst\<close> are \<open>float64\<close> in the source.
  The manager keeps \<open>config.Defaults.MinInterval\<close> and one limiter per alert source.
\<close>

record RateLimiter =
  tokens :: real
  rate :: real
  burst :: real
  lastUpdate :: int

record NotificationManager =
  MinInterval :: int
  rateLimit :: "string \<rightharpoonup> RateLimiter"

text \<open>\<open>Duration.Seconds()\<close>: nanoseconds to seconds.\<close>

definition Seconds :: "int \<Rightarrow> real" where
  "Seconds d = real_of_int d / 1000000000"

text \<open>\<open>RateLimiter.Allow\<close>; \<open>now\<close> is its reading of \<open>time.Now()\<close>.\<close>

definition Allow :: "int \<Rightarrow> RateLimiter \<Rightarrow> bool \<times> RateLimiter" where
  "Allow now rl =
     (let elapsed = Seconds (now - lastUpdate rl);
          rl1 = rl\<lparr>tokens := min (burst rl) (tokens rl + elapsed * rate rl), lastUpdate := now\<rparr>
      in if tokens rl1 \<ge> 1 then (True, rl1\<lparr>tokens := tokens rl1 - 1\<rparr>) else (False, rl1))"

text \<open>
  The limiter literal built by \<open>shouldSend\<close> for a source it has not seen; \<open>tokens\<close>
  is not mentioned there and so is Go's zero value.
\<close>

definition newLimiter :: "NotificationManager \<Rightarrow> int \<Rightarrow> RateLimiter" where
  "newLimiter nm now =
     \<lparr>tokens = 0, rate = 1 / Seconds (MinInterval nm), burst = 3, lastUpdate = now\<rparr>"

text \<open>
  \<open>shouldSend\<close>: \<open>t_new\<close> is the clock reading stored in a new limiter, \<open>t_allow\<close>
  the reading made by \<open>Allow\<close>. The source mutates the limiter through its pointer;
  the model stores the updated limiter back under the same key.
\<close>

definition shouldSend ::
  "int \<Rightarrow> int \<Rightarrow> NotificationManager \<Rightarrow> Alert \<Rightarrow> bool \<times> NotificationManager" where
  "shouldSend t_new t_allow nm alert =
     (let limiter = (case rateLimit nm (Source alert) of
                       Some l \<Rightarrow> l
                     | None \<Rightarrow> newLimiter nm t_new);
          (ok, limiter') = Allow t_allow limiter
      in (ok, nm\<lparr>rateLimit := (rateLimit nm)(Source alert \<mapsto> limiter')\<rparr>))"

text \<open>How many of the \<open>Allow\<close> calls made at the clock readings \<open>ts\<close> return true.\<close>

fun allowed_count :: "RateLimiter \<Rightarrow> int list \<Rightarrow> nat" where
  "allowed_count rl [] = 0"
| "allowed_count rl (t # ts) =
     (if fst (Allow t rl) then 1 else 0) + allowed_count (snd (Allow t rl)) ts"

text \<open>
  The outcome of the three channel senders (SMTP and HTTP I/O) is given by the
  environment: \<open>None\<close> for a \<open>nil\<close> error.
\<close>

record channel_io =
  sendEmail :: "Alert \<Rightarrow> string option"
  sendSlack :: "Alert \<Rightarrow> string option"
  sendWebhook :: "Alert \<Rightarrow> string option"

definition sendToChannel :: "channel_io \<Rightarrow> Alert \<Rightarrow> string \<Rightarrow> string option" where
  "sendToChannel io alert channel =
     (if channel = ''email'' then sendEmail io alert
      else if channel = ''slack'' then sendSlack io alert
      else if channel = ''webhook'' then sendWebhook io alert
      else Some (''unsupported notification channel: '' @ channel))"

text \<open>
  \<open>Send\<close> starts one goroutine per channel and waits for all of them; each goroutine
  calls \<open>sendToChannel\<close> once and posts its error, wrapped, on a channel buffered for
  \<open>len(channels)\<close> errors. The model visits the channels in list order (the order in
  which goroutines finish is not modelled). The result of \<open>Send\<close> is the returned
  error (\<open>Some errs\<close> for \<open>notification errors: errs\<close>), the channels dispatched to,
  and the manager afterwards.
\<close>

fun collect_errors :: "channel_io \<Rightarrow> Alert \<Rightarrow> string list \<Rightarrow> string list" where
  "collect_errors io alert [] = []"
| "collect_errors io alert (ch # chs) =
     (case sendToChannel io alert ch of
        None \<Rightarrow> collect_errors io alert chs
      | Some err \<Rightarrow> (''failed to send to '' @ ch @ '': '' @ err) # collect_errors io alert chs)"

definition Send ::
  "channel_io \<Rightarrow> int \<Rightarrow> int \<Rightarrow> NotificationManager \<Rightarrow> Alert \<Rightarrow> string list
     \<Rightarrow> string list option \<times> string list \<times> NotificationManager" where
  "Send io t_new t_allow nm alert channels =
     (let (ok, nm') = shouldSend t_new t_allow nm alert
      in if \<not> ok then (None, [], nm')
         else
           (let errs = collect_errors io alert channels
            in if length errs > 0 then (Some errs, channels, nm') else (None, channels, nm')))"

text \<open>Sample data: a one-minute interval, one source already known with two tokens.\<close>

definition nm0 :: NotificationManager where
  "nm0 = \<lparr>MinInterval = 60000000000, rateLimit = Map.empty\<rparr>"

definition nm1 :: NotificationManager where
  "nm1 = \<lparr>MinInterval = 60000000000,
          rateLimit = [''svc-A'' \<mapsto> \<lparr>tokens = 2, rate = 1 / 60, burst = 3, lastUpdate = 0\<rparr>]\<rparr>"

definition alertA :: Alert where
  "alertA = \<lparr>Severity = ''high'', Title = ''t'', Timestamp = ''now'', Source = ''svc-A'',
             Message = ''m'', Details = [], AlertURL = []\<rparr>"

definition io0 :: channel_io where
  "io0 = \<lparr>sendEmail = (\<lambda>_. None), sendSlack = (\<lambda>_. Some ''status 500''),
          sendWebhook = (\<lambda>_. None)\<rparr>"

chapter \<open>Theorems\<close>

section \<open>Log ingester\<close>

text \<open>
  C3. A flush takes the first \<open>min batchSize (length buffer)\<close> entries as the batch and
  hands them to the store (an empty buffer is left alone and the store is not called).
  When the store accepts the batch the buffer keeps only the entries behind it; when the
  store fails the batch is put back in front, and the buffer is exactly what it was before
  the flush. (A negative \<open>batchSize\<close> makes Go's \<open>make\<close> panic, hence the hypothesis.)
\<close>

theorem flush_discards_or_requeues:
  assumes "0 \<le> batchSize i"
  shows "\<exists>i' st'. flush batchInsert i st = Inr (i', st')
           \<and> bufferSize i' = bufferSize i \<and> batchSize i' = batchSize i
           \<and> (buffer i = [] \<longrightarrow> i' = i \<and> st' = st)
           \<and> (buffer i \<noteq> [] \<longrightarrow>
                 st' = snd (batchInsert (take (nat (batchSize i)) (buffer i)) st)
                 \<and> (fst (batchInsert (take (nat (batchSize i)) (buffer i)) st) = None
                      \<longrightarrow> buffer i' = drop (nat (batchSize i)) (buffer i))
                 \<and> (fst (batchInsert (take (nat (batchSize i)) (buffer i)) st) \<noteq> None
                      \<longrightarrow> buffer i' = buffer i))"
proof (cases "buffer i = []")
  case True
  then show ?thesis by (simp add: flush_def)
next
  case False
  define n where "n = (if batchSize i > int (length (buffer i)) then int (length (buffer i))
                       else batchSize i)"
  have n0: "0 \<le> n" using assms by (simp add: n_def)
  have tk: "take (nat n) (buffer i) = take (nat (batchSize i)) (buffer i)"
    by (simp add: n_def)
  have dr: "drop (nat n) (buffer i) = drop (nat (batchSize i)) (buffer i)"
    by (simp add: n_def)
  obtain err st1 where ins: "batchInsert (take (nat (batchSize i)) (buffer i)) st = (err, st1)"
    by (cases "batchInsert (take (nat (batchSize i)) (buffer i)) st")
  show ?thesis
  proof (cases err)
    case None
    with False n0 ins tk dr show ?thesis
      by (simp add: flush_def n_def [symmetric] Let_def)
  next
    case (Some e)
    with False n0 ins tk dr show ?thesis
      by (simp add: flush_def n_def [symmetric] Let_def)
  qed
qed

theorem flush_discards_or_requeues_witness:
  "buffer (fst (projr (flush failing_store
       \<lparr>buffer = seven_logs, bufferSize = 10, batchSize = 5\<rparr> []))) = seven_logs
   \<and> flush appending_store \<lparr>buffer = seven_logs, bufferSize = 10, batchSize = 5\<rparr> []
       = Inr (\<lparr>buffer = drop 5 seven_logs, bufferSize = 10, batchSize = 5\<rparr>, take 5 seven_logs)"
  using flush_discards_or_requeues
    [of "\<lparr>buffer = seven_logs, bufferSize = 10, batchSize = 5\<rparr>" failing_store "[]"]
    flush_discards_or_requeues
    [of "\<lparr>buffer = seven_logs, bufferSize = 10, batchSize = 5\<rparr>" appending_store "[]"]
  by (auto simp: failing_store_def appending_store_def seven_logs_def)

text \<open>
  C10. \<open>IngestLog\<close> returns an error exactly when the decoder rejects the raw input or
  one of \<open>application_id\<close>, \<open>service_name\<close>, \<open>severity\<close>, \<open>message\<close> is empty, and then
  the ingester is unchanged and no flush is signalled. Otherwise exactly one entry is
  appended at the end of the buffer: the decoded log, with its timestamp replaced by the
  clock reading when the decoded timestamp is the zero time.
\<close>

theorem IngestLog_error_iff_invalid:
  "(fst (IngestLog unmarshal now i raw) \<noteq> None \<longleftrightarrow>
      (unmarshal raw = None
       \<or> (\<exists>l. unmarshal raw = Some l
              \<and> (ApplicationID l = [] \<or> ServiceName l = [] \<or> log_Severity l = []
                   \<or> log_Message l = []))))
   \<and> (fst (IngestLog unmarshal now i raw) \<noteq> None \<longrightarrow>
        snd (IngestLog unmarshal now i raw) = (i, False))
   \<and> (fst (IngestLog unmarshal now i raw) = None \<longrightarrow>
        (\<exists>l. unmarshal raw = Some l
           \<and> snd (IngestLog unmarshal now i raw) =
               (i\<lparr>buffer := buffer i @
                    [if log_Timestamp l = 0 then l\<lparr>log_Timestamp := now\<rparr> else l]\<rparr>,
                bufferSize i \<le> int (length (buffer i)) + 1)))"
  by (cases "unmarshal raw")
     (auto simp: IngestLog_def validateLog_def Let_def split: option.splits)

theorem IngestLog_error_iff_invalid_witness:
  "IngestLog sample_unmarshal 42 \<lparr>buffer = [mk_log ''old'' 7], bufferSize = 2, batchSize = 1\<rparr>
       ''{good}''
     = (None, \<lparr>buffer = [mk_log ''old'' 7, mk_log ''disk full'' 42], bufferSize = 2,
               batchSize = 1\<rparr>, True)
   \<and> snd (IngestLog sample_unmarshal 42
            \<lparr>buffer = [mk_log ''old'' 7], bufferSize = 2, batchSize = 1\<rparr> ''{no message}'')
     = (\<lparr>buffer = [mk_log ''old'' 7], bufferSize = 2, batchSize = 1\<rparr>, False)
   \<and> fst (IngestLog sample_unmarshal 42
            \<lparr>buffer = [mk_log ''old'' 7], bufferSize = 2, batchSize = 1\<rparr> ''not json'')
     \<noteq> None"
  using IngestLog_error_iff_invalid
    [of sample_unmarshal 42 "\<lparr>buffer = [mk_log ''old'' 7], bufferSize = 2, batchSize = 1\<rparr>"
        "''{good}''"]
    IngestLog_error_iff_invalid
    [of sample_unmarshal 42 "\<lparr>buffer = [mk_log ''old'' 7], bufferSize = 2, batchSize = 1\<rparr>"
        "''{no message}''"]
    IngestLog_error_iff_invalid
    [of sample_unmarshal 42 "\<lparr>buffer = [mk_log ''old'' 7], bufferSize = 2, batchSize = 1\<rparr>"
        "''not json''"]
  by (simp add: sample_unmarshal_def mk_log_def IngestLog_def validateLog_def)

section \<open>Notification manager and rate limiter\<close>

lemma Allow_fields [simp]:
  "rate (snd (Allow t rl)) = rate rl" "burst (snd (Allow t rl)) = burst rl"
  "lastUpdate (snd (Allow t rl)) = t"
  by (simp_all add: Allow_def Let_def)


lemma Allow_step_bound:
  assumes "0 \<le> rate rl" "lastUpdate rl \<le> t"
  shows "(if fst (Allow t rl) then 1 else 0) + max 0 (tokens (snd (Allow t rl)))
           \<le> max 0 (tokens rl) + rate rl * Seconds (t - lastUpdate rl)"
proof -
  have "0 \<le> Seconds (t - lastUpdate rl)" using assms by (simp add: Seconds_def)
  then have "0 \<le> Seconds (t - lastUpdate rl) * rate rl" using assms by simp
  then show ?thesis
    by (auto simp: Allow_def Let_def min_def max_def mult.commute)
qed


lemma Seconds_diff: "Seconds (a - b) = Seconds a - Seconds b"
  by (simp add: Seconds_def diff_divide_distrib)

lemma allowed_count_accrual:
  assumes "0 \<le> rate rl" "sorted (lastUpdate rl # ts)"
  shows "real (allowed_count rl ts)
           \<le> max 0 (tokens rl) + rate rl * Seconds (last (lastUpdate rl # ts) - lastUpdate rl)"
  using assms
proof (induction ts arbitrary: rl)
  case Nil
  then show ?case by (simp add: Seconds_def)
next
  case (Cons t ts)
  let ?rl' = "snd (Allow t rl)"
  have le: "lastUpdate rl \<le> t" using Cons.prems by simp
  have "sorted (lastUpdate ?rl' # ts)" using Cons.prems by simp
  with Cons.IH [of ?rl'] Cons.prems
  have ih: "real (allowed_count ?rl' ts)
      \<le> max 0 (tokens ?rl') + rate rl * Seconds (last (t # ts) - t)" by simp
  have st: "(if fst (Allow t rl) then 1 else 0) + max 0 (tokens ?rl')
      \<le> max 0 (tokens rl) + rate rl * Seconds (t - lastUpdate rl)"
    using Allow_step_bound [OF Cons.prems(1) le] .
  have "real (allowed_count rl (t # ts))
      = (if fst (Allow t rl) then 1 else 0) + real (allowed_count ?rl' ts)" by simp
  also have "\<dots> \<le> max 0 (tokens rl) + rate rl * Seconds (t - lastUpdate rl)
                   + rate rl * Seconds (last (t # ts) - t)"
    using ih st by linarith
  also have "\<dots> = max 0 (tokens rl) + rate rl * Seconds (last (t # ts) - lastUpdate rl)"
    by (simp add: Seconds_diff algebra_simps)
  finally show ?case by simp
qed

lemma Seconds_mono: "a \<le> b \<Longrightarrow> Seconds a \<le> Seconds b"
  by (simp add: Seconds_def divide_right_mono)



lemma allowed_count_empty_start:
  assumes r: "0 \<le> rate rl" and e: "tokens rl = 0" and s: "sorted ts"
    and w: "\<forall>t\<in>set ts. lastUpdate rl \<le> t \<and> t \<le> lastUpdate rl + d" and d: "0 \<le> d"
  shows "int (allowed_count rl ts) \<le> \<lfloor>rate rl * Seconds d\<rfloor>"
proof -
  have srt: "sorted (lastUpdate rl # ts)" using s w by simp
  have "last (lastUpdate rl # ts) \<le> lastUpdate rl + d"
  proof (cases ts)
    case Nil then show ?thesis using d by simp
  next
    case (Cons a as)
    then have "last (lastUpdate rl # ts) \<in> set ts" using last_in_set [of ts] by simp
    then show ?thesis using w by blast
  qed
  then have "Seconds (last (lastUpdate rl # ts) - lastUpdate rl) \<le> Seconds d"
    by (intro Seconds_mono) linarith
  then have "rate rl * Seconds (last (lastUpdate rl # ts) - lastUpdate rl) \<le> rate rl * Seconds d"
    using r by (rule mult_left_mono)
  then have "real (allowed_count rl ts) \<le> rate rl * Seconds d"
    using allowed_count_accrual [OF r srt] e by simp
  then have "real_of_int (int (allowed_count rl ts)) \<le> rate rl * Seconds d" by simp
  then show ?thesis by (simp only: le_floor_iff)
qed

lemma length_collect_errors:
  "length (collect_errors io alert chs)
     = length (filter (\<lambda>ch. sendToChannel io alert ch \<noteq> None) chs)"
  by (induction chs) (auto split: option.splits)

lemma collect_errors_Nil_iff:
  "collect_errors io alert chs = [] \<longleftrightarrow> (\<forall>ch\<in>set chs. sendToChannel io alert ch = None)"
  by (induction chs) (auto split: option.splits)

text \<open>
  C8. When the rate limiter of the alert's source refuses a token, \<open>Send\<close> returns no
  error and dispatches to no channel. Otherwise it dispatches to every requested channel,
  the collected errors are one per failing channel (a failing channel does not stop the
  others), and \<open>Send\<close> returns no error exactly when every channel succeeded.
\<close>

theorem Send_aggregate:
  "(\<not> fst (shouldSend t_new t_allow nm alert) \<longrightarrow>
      Send io t_new t_allow nm alert channels
        = (None, [], snd (shouldSend t_new t_allow nm alert)))
   \<and> (fst (shouldSend t_new t_allow nm alert) \<longrightarrow>
        fst (snd (Send io t_new t_allow nm alert channels)) = channels
        \<and> (fst (Send io t_new t_allow nm alert channels) = None
             \<longleftrightarrow> (\<forall>ch\<in>set channels. sendToChannel io alert ch = None))
        \<and> (\<forall>errs. fst (Send io t_new t_allow nm alert channels) = Some errs \<longrightarrow>
              length errs
                = length (filter (\<lambda>ch. sendToChannel io alert ch \<noteq> None) channels)))"
  by (cases "shouldSend t_new t_allow nm alert")
     (auto simp: Send_def Let_def collect_errors_Nil_iff length_collect_errors)

theorem Send_aggregate_witness:
  "Send io0 0 0 nm0 alertA [''email'', ''slack'']
     = (None, [], snd (shouldSend 0 0 nm0 alertA))
   \<and> fst (Send io0 5 10 nm1 alertA [''email'', ''slack'', ''webhook''])
       = Some [''failed to send to slack: status 500'']
   \<and> fst (snd (Send io0 5 10 nm1 alertA [''email'', ''slack'', ''webhook'']))
       = [''email'', ''slack'', ''webhook'']
   \<and> fst (Send io0 5 10 nm1 alertA [''email'', ''webhook'']) = None"
proof -
  have no: "\<not> fst (shouldSend 0 0 nm0 alertA)"
    by (simp add: shouldSend_def nm0_def alertA_def newLimiter_def Allow_def Seconds_def)
  have yes: "fst (shouldSend 5 10 nm1 alertA)"
    by (simp add: shouldSend_def nm1_def alertA_def Allow_def Seconds_def)
  have e3: "collect_errors io0 alertA [''email'', ''slack'', ''webhook'']
              = [''failed to send to slack: status 500'']"
    by (simp add: io0_def sendToChannel_def)
  have e2: "\<forall>ch\<in>set [''email'', ''webhook'']. sendToChannel io0 alertA ch = None"
    by (simp add: io0_def sendToChannel_def)
  have s3: "fst (Send io0 5 10 nm1 alertA [''email'', ''slack'', ''webhook''])
              = Some [''failed to send to slack: status 500'']"
    using yes by (cases "shouldSend 5 10 nm1 alertA") (simp add: Send_def io0_def sendToChannel_def)
  show ?thesis
    using Send_aggregate [of 0 0 nm0 alertA io0 "[''email'', ''slack'']"] no
      Send_aggregate [of 5 10 nm1 alertA io0 "[''email'', ''slack'', ''webhook'']"] yes
      Send_aggregate [of 5 10 nm1 alertA io0 "[''email'', ''webhook'']"] e2 s3
    by blast
qed



end
